theory Spec2Isabelle
  imports Complex_Main "HOL-Library.List_Lexorder" "HOL-Library.Char_ord"
    "HOL-Library.Product_Lexorder"
begin

section \<open>Tax Engine (app/utils/helpers.py, app/services/gst_calculator.py)\<close>

text \<open>
  Monetary amounts are Python ints (paise), modelled as \<open>int\<close>. GST rates and the
  intermediate products are \<open>decimal.Decimal\<close> values; every one that occurs is a finite
  decimal far below the 28 significant digits of the default context, so the Decimal
  arithmetic is exact and is modelled by \<open>rat\<close>.
\<close>

text \<open>
  \<open>round_gst_amount(amount) = round(amount)\<close>. Python's \<open>round\<close> on a Decimal without
  a digit count returns the nearest int, a tie going to the even neighbour.
\<close>

definition round_gst_amount :: "rat \<Rightarrow> int" where
  "round_gst_amount amount =
     (let f = \<lfloor>amount\<rfloor>; d = amount - of_int f
      in if d < 1 / 2 then f
         else if 1 / 2 < d then f + 1
         else if even f then f else f + 1)"

definition calculate_percentage :: "int \<Rightarrow> rat \<Rightarrow> int" where
  "calculate_percentage amount percentage =
     round_gst_amount (of_int amount * percentage / 100)"

record TaxBreakup =
  taxable_amount_paise :: int
  cgst_paise :: int
  sgst_paise :: int
  igst_paise :: int
  total_tax_paise :: int
  total_amount_paise :: int

definition calculate_gst :: "int \<Rightarrow> rat \<Rightarrow> string \<Rightarrow> string \<Rightarrow> TaxBreakup" where
  "calculate_gst taxable_amount gst_rate seller_state_code buyer_state_code =
     (if seller_state_code = buyer_state_code then
        (let half_rate = gst_rate / 2;
             cgst = calculate_percentage taxable_amount half_rate;
             sgst = calculate_percentage taxable_amount half_rate
         in \<lparr>taxable_amount_paise = taxable_amount,
             cgst_paise = cgst,
             sgst_paise = sgst,
             igst_paise = 0,
             total_tax_paise = cgst + sgst,
             total_amount_paise = taxable_amount + cgst + sgst\<rparr>)
      else
        (let igst = calculate_percentage taxable_amount gst_rate
         in \<lparr>taxable_amount_paise = taxable_amount,
             cgst_paise = 0,
             sgst_paise = 0,
             igst_paise = igst,
             total_tax_paise = igst,
             total_amount_paise = taxable_amount + igst\<rparr>))"

definition calculate_line_item_tax :: "int \<Rightarrow> int \<Rightarrow> rat \<Rightarrow> string \<Rightarrow> string \<Rightarrow> TaxBreakup" where
  "calculate_line_item_tax quantity unit_price_paise gst_rate seller_state_code buyer_state_code =
     calculate_gst (quantity * unit_price_paise) gst_rate seller_state_code buyer_state_code"

definition aggregate_invoice_taxes :: "TaxBreakup list \<Rightarrow> TaxBreakup" where
  "aggregate_invoice_taxes line_items =
     (let total_taxable = sum_list (map taxable_amount_paise line_items);
          total_cgst = sum_list (map cgst_paise line_items);
          total_sgst = sum_list (map sgst_paise line_items);
          total_igst = sum_list (map igst_paise line_items)
      in \<lparr>taxable_amount_paise = total_taxable,
          cgst_paise = total_cgst,
          sgst_paise = total_sgst,
          igst_paise = total_igst,
          total_tax_paise = total_cgst + total_sgst + total_igst,
          total_amount_paise = total_taxable + total_cgst + total_sgst + total_igst\<rparr>)"

text \<open>ALLOWED_GST_RATES of app/services/invoice_service.py.\<close>

definition ALLOWED_GST_RATES :: "rat set" where
  "ALLOWED_GST_RATES = {0, 5, 12, 18, 28}"


section \<open>Errors\<close>

text \<open>
  The services raise \<open>fastapi.HTTPException(status_code, detail)\<close>. The detail is an
  English message, some with values formatted in; each constructor of \<open>detail\<close> stands
  for one message of the source and carries the values formatted into it.
\<close>

datatype detail =
    Invoice_date_in_future
      \<comment> \<open>"Invoice date cannot be in the future"\<close>
  | Invalid_business_state_code
      \<comment> \<open>"Invalid business state code. Please configure a valid 2-digit state code."\<close>
  | Business_profile_not_configured
      \<comment> \<open>"Business profile not configured. Please set up business profile first."\<close>
  | Customer_not_found int
      \<comment> \<open>"Customer with id \{customer_id\} not found"\<close>
  | B2B_customer_must_have_GSTIN
      \<comment> \<open>"B2B customer must have a valid GSTIN"\<close>
  | Customer_GSTIN_state_mismatch
      \<comment> \<open>"Customer GSTIN state code does not match stored state code"\<close>
  | B2C_customers_cannot_have_GSTIN
      \<comment> \<open>"B2C customers cannot have GSTIN"\<close>
  | Place_of_supply_mismatch
      \<comment> \<open>"Place of supply must match customer state code"\<close>
  | Product_not_found int
      \<comment> \<open>"Product with id \{product_id\} not found"\<close>
  | Invalid_GST_rate rat
      \<comment> \<open>"Invalid GST rate \{gst_rate\}. Allowed rates: ..."\<close>
  | Invalid_HSN_code
      \<comment> \<open>"Invalid HSN code for product"\<close>
  | Negative_price
      \<comment> \<open>"Product price cannot be negative"\<close>
  | Insufficient_stock string int int
      \<comment> \<open>"Insufficient stock for product '\{name\}'. Available: \{stock\}, Required: \{quantity\}"\<close>
  | Totals_mismatch
      \<comment> \<open>"Provided totals do not match server-calculated totals"\<close>
  | Invoice_not_found int
      \<comment> \<open>"Invoice with id \{invoice_id\} not found"\<close>
  | Invoice_already_cancelled string
      \<comment> \<open>"Invoice \{invoice_number\} is already cancelled"\<close>
  | Purchase_not_found
      \<comment> \<open>"Purchase invoice not found"\<close>
  | Purchase_already_finalized
      \<comment> \<open>"Purchase is already finalized"\<close>
  | Cannot_finalize_cancelled
      \<comment> \<open>"Cannot finalize a cancelled purchase"\<close>
  | Missing_products_for_HSN "string list"
      \<comment> \<open>"Missing products for HSN codes: \{', '.join(unique_missing)\}. Create matching
          products before finalizing."\<close>

datatype error =
    HTTPException (status_code: nat) (detail: detail)
  | IntegrityError
      \<comment> \<open>the UNIQUE constraint of \<open>invoices.invoice_number\<close> failing at commit\<close>
  | AttributeError string
      \<comment> \<open>reading an attribute the class does not define\<close>

section \<open>Data model (app/models, app/schemas)\<close>

text \<open>
  One record per ORM class, fields named \<open>Class_field\<close> since several classes share
  field names. The audit columns \<open>created_at\<close> and \<open>updated_at\<close> are left out.

  A \<open>datetime.date\<close> is (year, month, day) and a \<open>datetime.datetime\<close> is a date with
  the microseconds since midnight, both in lexicographic order; the clock is an input of
  the model.
\<close>

type_synonym date = "int \<times> int \<times> int"
type_synonym datetime = "date \<times> int"

record Product =
  Product_id :: int
  Product_name :: string
  Product_description :: "string option"
  Product_hsn_code :: string
  Product_gst_rate :: rat
  Product_price_paise :: int
  Product_stock_quantity :: int
  Product_unit :: string
  Product_is_active :: bool

record Customer =
  Customer_id :: int
  Customer_name :: string
  Customer_customer_type :: string
  Customer_gstin :: "string option"
  Customer_address :: string
  Customer_state :: string
  Customer_state_code :: string
  Customer_phone :: "string option"
  Customer_email :: "string option"
  Customer_is_active :: bool

record BusinessProfile =
  Business_id :: int
  Business_name :: string
  Business_gstin :: string
  Business_state_code :: string
  Business_address :: string
  Business_city :: string
  Business_pincode :: string
  Business_phone :: "string option"
  Business_email :: "string option"
  Business_invoice_prefix :: string
  Business_invoice_start_number :: int
  Business_current_invoice_number :: int

record User =
  User_id :: int
  User_username :: string

text \<open>The dicts built by \<open>_create_customer_snapshot\<close> and \<open>_create_business_snapshot\<close>.\<close>

record Snapshot =
  snapshot_id :: int
  snapshot_name :: string
  snapshot_gstin :: "string option"
  snapshot_state_code :: string
  snapshot_address :: string
  snapshot_city :: "string option"
  snapshot_pincode :: "string option"
  snapshot_phone :: "string option"
  snapshot_email :: "string option"

record InvoiceItem =
  InvoiceItem_product_id :: "int option"
  InvoiceItem_product_name :: string
  InvoiceItem_description :: "string option"
  InvoiceItem_hsn_code :: string
  InvoiceItem_quantity :: int
  InvoiceItem_unit :: string
  InvoiceItem_unit_price_paise :: int
  InvoiceItem_gst_rate :: rat
  InvoiceItem_taxable_amount_paise :: int
  InvoiceItem_cgst_paise :: int
  InvoiceItem_sgst_paise :: int
  InvoiceItem_igst_paise :: int
  InvoiceItem_gst_amount_paise :: int
  InvoiceItem_total_paise :: int

record Invoice =
  Invoice_id :: int
  Invoice_invoice_number :: string
  Invoice_invoice_date :: date
  Invoice_place_of_supply :: string
  Invoice_invoice_type :: string
  Invoice_status :: string
  Invoice_finalized_at :: "datetime option"
  Invoice_customer_id :: int
  Invoice_created_by :: int
  Invoice_items :: "InvoiceItem list"
  Invoice_customer_snapshot :: Snapshot
  Invoice_business_snapshot :: Snapshot
  Invoice_subtotal_paise :: int
  Invoice_cgst_paise :: int
  Invoice_sgst_paise :: int
  Invoice_igst_paise :: int
  Invoice_total_paise :: int
  Invoice_total_taxable_value_paise :: int
  Invoice_total_gst_paise :: int
  Invoice_grand_total_paise :: int
  Invoice_round_off_paise :: int
  Invoice_is_cancelled :: bool
  Invoice_cancelled_at :: "datetime option"
  Invoice_cancellation_reason :: "string option"

text \<open>
  \<open>PurchaseItem.quantity\<close> and \<open>PurchaseInvoice.total_quantity\<close> are Float columns;
  a float is a rational number, and the model keeps its exact value.
\<close>

record PurchaseItem =
  PurchaseItem_item_name :: string
  PurchaseItem_hsn_code :: string
  PurchaseItem_quantity :: rat
  PurchaseItem_rate :: int
  PurchaseItem_gst_rate :: int
  PurchaseItem_taxable_value :: int
  PurchaseItem_gst_amount :: int
  PurchaseItem_cgst_amount :: int
  PurchaseItem_sgst_amount :: int
  PurchaseItem_igst_amount :: int
  PurchaseItem_total_amount :: int
  PurchaseItem_tax_type :: string

record PurchaseInvoice =
  Purchase_id :: int
  Purchase_supplier_id :: int
  Purchase_supplier_invoice_no :: string
  Purchase_supplier_invoice_date :: datetime
  Purchase_purchase_date :: datetime
  Purchase_place_of_supply :: string
  Purchase_place_of_supply_code :: string
  Purchase_total_quantity :: rat
  Purchase_subtotal_value :: int
  Purchase_cgst_amount :: int
  Purchase_sgst_amount :: int
  Purchase_igst_amount :: int
  Purchase_total_gst :: int
  Purchase_total_amount :: int
  Purchase_status :: string
  Purchase_cancel_reason :: "string option"
  Purchase_is_active :: bool
  Purchase_finalized_at :: "datetime option"
  Purchase_cancelled_at :: "datetime option"
  Purchase_items :: "PurchaseItem list"

text \<open>Request bodies (app/schemas/invoice.py); amounts of \<open>client_totals\<close> are rupees.\<close>

record InvoiceItemCreate =
  item_product_id :: int
  item_quantity :: int
  item_description :: "string option"

record InvoiceTotalsInput =
  total_taxable_value :: rat
  total_gst :: rat
  grand_total :: rat

record InvoiceCreate =
  req_customer_id :: int
  req_invoice_date :: date
  req_place_of_supply :: "string option"
  req_items :: "InvoiceItemCreate list"
  req_client_totals :: "InvoiceTotalsInput option"

section \<open>Database and session\<close>

text \<open>
  A table is the list of its rows in storage order; \<open>query(...).filter(...).first()\<close>
  is \<open>find\<close> on it, and a write to the object so found is \<open>update_first\<close>.

  A SQLAlchemy session (\<open>autocommit=False, autoflush=False\<close>) holds the objects it has
  loaded: attribute writes change \<open>pending\<close>, \<open>commit()\<close> stores \<open>pending\<close>, and
  \<open>close()\<close> without a commit drops it (\<open>get_db\<close> of app/database.py closes the
  session when the request ends).
\<close>

record database =
  customers :: "Customer list"
  products :: "Product list"
  business_profile :: "BusinessProfile list"
  invoices :: "Invoice list"
  purchase_invoices :: "PurchaseInvoice list"

record session =
  committed :: database
  pending :: database

definition SessionLocal :: "database \<Rightarrow> session" where
  "SessionLocal db = \<lparr>committed = db, pending = db\<rparr>"

definition db_commit :: "session \<Rightarrow> session" where
  "db_commit s = s\<lparr>committed := pending s\<rparr>"

definition db_close :: "session \<Rightarrow> database" where
  "db_close s = committed s"

fun update_first :: "('a \<Rightarrow> bool) \<Rightarrow> ('a \<Rightarrow> 'a) \<Rightarrow> 'a list \<Rightarrow> 'a list" where
  "update_first P f [] = []"
| "update_first P f (x # xs) = (if P x then f x # xs else x # update_first P f xs)"

text \<open>The key an INTEGER PRIMARY KEY column gets on insert: one more than the largest.\<close>

definition next_id :: "int list \<Rightarrow> int" where
  "next_id ids = fold max ids 0 + 1"

text \<open>The clock and the settings (app/config.py) a request runs under.\<close>

record Env =
  today :: date
  utc_now :: datetime
  gstin_checksum_enforced :: bool


section \<open>Validators (app/utils/validators.py)\<close>

text \<open>
  \<open>str.isdigit\<close> on one character, for the ASCII digits (HSN codes and GSTINs are ASCII),
  and the character class \<open>[A-Z]\<close>.
\<close>

definition isdigit :: "char \<Rightarrow> bool" where
  "isdigit c = (c \<in> set ''0123456789'')"

definition isupper :: "char \<Rightarrow> bool" where
  "isupper c = (c \<in> set ''ABCDEFGHIJKLMNOPQRSTUVWXYZ'')"

text \<open>
  The pattern \<open>^[0-9]{2}[A-Z]{5}[0-9]{4}[A-Z]{1}[1-9A-Z]{1}Z[0-9A-Z]{1}$\<close>, matched
  against a string already known to have 15 characters.
\<close>

definition gstin_pattern :: "string \<Rightarrow> bool" where
  "gstin_pattern g =
     (length g = 15 \<and>
      list_all isdigit (take 2 g) \<and>
      list_all isupper (take 5 (drop 2 g)) \<and>
      list_all isdigit (take 4 (drop 7 g)) \<and>
      list_all isupper (take 1 (drop 11 g)) \<and>
      list_all (\<lambda>c. isupper c \<or> (isdigit c \<and> c \<noteq> CHR ''0'')) (take 1 (drop 12 g)) \<and>
      take 1 (drop 13 g) = ''Z'' \<and>
      list_all (\<lambda>c. isdigit c \<or> isupper c) (take 1 (drop 14 g)))"

definition char_value :: "char \<Rightarrow> int" where
  "char_value c =
     (if isdigit c then int (of_char c) - 48 else int (of_char c) - 65 + 10)"

fun weighted_sum :: "nat \<Rightarrow> string \<Rightarrow> int" where
  "weighted_sum i [] = 0"
| "weighted_sum i (c # cs) =
     (let v = char_value c;
          factor = (if i mod 2 = 0 then 1 else 2);
          product = v * factor
      in product div 36 + product mod 36 + weighted_sum (i + 1) cs)"

definition validate_gstin_checksum :: "string \<Rightarrow> bool" where
  "validate_gstin_checksum gstin =
     (let checksum_char = drop 14 gstin;
          base = take 14 gstin;
          total = weighted_sum 0 base;
          checksum_value = (36 - total mod 36) mod 36;
          expected_checksum =
            (if checksum_value < 10 then [char_of (48 + nat checksum_value)]
             else [char_of (65 + nat checksum_value - 10)])
      in checksum_char = expected_checksum)"

definition validate_gstin :: "Env \<Rightarrow> string \<Rightarrow> bool" where
  "validate_gstin env gstin =
     (if gstin = [] \<or> length gstin \<noteq> 15 then False
      else if \<not> gstin_pattern gstin then False
      else if \<not> gstin_checksum_enforced env then True
      else validate_gstin_checksum gstin)"

text \<open>\<open>validate_hsn_code(hsn)\<close> with its default \<open>turnover_category="medium"\<close>.\<close>

definition validate_hsn_code :: "string \<Rightarrow> bool" where
  "validate_hsn_code hsn =
     (if hsn = [] \<or> \<not> list_all isdigit hsn then False
      else length hsn \<in> {4, 6, 8})"

definition extract_state_code_from_gstin :: "Env \<Rightarrow> string \<Rightarrow> string option" where
  "extract_state_code_from_gstin env gstin =
     (if validate_gstin env gstin then Some (take 2 gstin) else None)"

section \<open>Model methods (app/models)\<close>

text \<open>\<open>Product.reduce_stock\<close>: the flag returned and the product as left.\<close>

definition reduce_stock :: "Product \<Rightarrow> int \<Rightarrow> bool \<times> Product" where
  "reduce_stock self quantity =
     (if quantity \<le> Product_stock_quantity self
      then (True, self\<lparr>Product_stock_quantity := Product_stock_quantity self - quantity\<rparr>)
      else (False, self))"

text \<open>Decimal digits of a natural number, and Python's \<open>format(n, "06d")\<close>.\<close>

fun str_nat :: "nat \<Rightarrow> string" where
  "str_nat n =
     (if n < 10 then [char_of (48 + n)]
      else str_nat (n div 10) @ [char_of (48 + n mod 10)])"

declare str_nat.simps [simp del]

definition format_06d :: "int \<Rightarrow> string" where
  "format_06d n =
     (if 0 \<le> n
      then (let ds = str_nat (nat n) in replicate (6 - length ds) CHR ''0'' @ ds)
      else (let ds = str_nat (nat (- n)) in CHR ''-'' # replicate (5 - length ds) CHR ''0'' @ ds))"

text \<open>\<open>BusinessProfile.generate_invoice_number\<close>: the number and the profile as left.\<close>

definition generate_invoice_number :: "BusinessProfile \<Rightarrow> string \<times> BusinessProfile" where
  "generate_invoice_number self =
     (let invoice_num = Business_invoice_prefix self @ format_06d (Business_current_invoice_number self)
      in (invoice_num,
          self\<lparr>Business_current_invoice_number := Business_current_invoice_number self + 1\<rparr>))"

text \<open>\<open>Invoice.cancel(reason)\<close>.\<close>

definition Invoice_cancel :: "Env \<Rightarrow> Invoice \<Rightarrow> string \<Rightarrow> Invoice" where
  "Invoice_cancel env self reason =
     self\<lparr>Invoice_is_cancelled := True,
          Invoice_cancelled_at := Some (utc_now env),
          Invoice_cancellation_reason := Some reason\<rparr>"

definition is_b2b :: "Customer \<Rightarrow> bool" where
  "is_b2b self = (Customer_customer_type self = ''B2B'')"


section \<open>Invoice service (app/services/invoice_service.py)\<close>

text \<open>
  The private helpers \<open>_validate_...\<close> return nothing or raise; here they return the
  exception raised, if any. Their names lose the leading underscore.
\<close>

definition validate_invoice_date :: "Env \<Rightarrow> date \<Rightarrow> error option" where
  "validate_invoice_date env invoice_date =
     (if today env < invoice_date then Some (HTTPException 400 Invoice_date_in_future)
      else None)"

definition validate_business_profile :: "BusinessProfile \<Rightarrow> error option" where
  "validate_business_profile business =
     (if Business_state_code business = [] \<or> length (Business_state_code business) \<noteq> 2
      then Some (HTTPException 400 Invalid_business_state_code)
      else None)"

definition validate_customer_for_invoice :: "Env \<Rightarrow> Customer \<Rightarrow> error option" where
  "validate_customer_for_invoice env customer =
     (if is_b2b customer then
        (case Customer_gstin customer of
           None \<Rightarrow> Some (HTTPException 400 B2B_customer_must_have_GSTIN)
         | Some gstin \<Rightarrow>
             if gstin = [] then Some (HTTPException 400 B2B_customer_must_have_GSTIN)
             else if extract_state_code_from_gstin env gstin \<noteq> Some (Customer_state_code customer)
             then Some (HTTPException 400 Customer_GSTIN_state_mismatch)
             else None)
      else
        (case Customer_gstin customer of
           None \<Rightarrow> None
         | Some gstin \<Rightarrow>
             if gstin = [] then None
             else Some (HTTPException 400 B2C_customers_cannot_have_GSTIN)))"

definition validate_product_for_invoice :: "Product \<Rightarrow> error option" where
  "validate_product_for_invoice product =
     (if Product_gst_rate product \<notin> ALLOWED_GST_RATES
      then Some (HTTPException 400 (Invalid_GST_rate (Product_gst_rate product)))
      else if \<not> validate_hsn_code (Product_hsn_code product)
      then Some (HTTPException 400 Invalid_HSN_code)
      else if Product_price_paise product < 0
      then Some (HTTPException 400 Negative_price)
      else None)"

text \<open>
  \<open>_validate_client_totals\<close>: \<open>Decimal(paise) / 100\<close> is exact, and \<open>!=\<close> on Decimals
  compares values.
\<close>

definition validate_client_totals :: "InvoiceTotalsInput option \<Rightarrow> TaxBreakup \<Rightarrow> error option" where
  "validate_client_totals client_totals computed =
     (case client_totals of
        None \<Rightarrow> None
      | Some ct \<Rightarrow>
          (let taxable_rupees = of_int (taxable_amount_paise computed) / 100;
               gst_rupees = of_int (total_tax_paise computed) / 100;
               grand_rupees = of_int (total_amount_paise computed) / 100
           in if taxable_rupees \<noteq> total_taxable_value ct
                 \<or> gst_rupees \<noteq> total_gst ct
                 \<or> grand_rupees \<noteq> grand_total ct
              then Some (HTTPException 400 Totals_mismatch)
              else None))"

definition create_customer_snapshot :: "Customer \<Rightarrow> Snapshot" where
  "create_customer_snapshot customer =
     \<lparr>snapshot_id = Customer_id customer,
      snapshot_name = Customer_name customer,
      snapshot_gstin = Customer_gstin customer,
      snapshot_state_code = Customer_state_code customer,
      snapshot_address = Customer_address customer,
      snapshot_city = None,
      snapshot_pincode = None,
      snapshot_phone = Customer_phone customer,
      snapshot_email = Customer_email customer\<rparr>"

definition create_business_snapshot :: "BusinessProfile \<Rightarrow> Snapshot" where
  "create_business_snapshot business =
     \<lparr>snapshot_id = Business_id business,
      snapshot_name = Business_name business,
      snapshot_gstin = Some (Business_gstin business),
      snapshot_state_code = Business_state_code business,
      snapshot_address = Business_address business,
      snapshot_city = Some (Business_city business),
      snapshot_pincode = Some (Business_pincode business),
      snapshot_phone = Business_phone business,
      snapshot_email = Business_email business\<rparr>"

text \<open>\<open>item_data.description or product.description\<close>.\<close>

definition description_or :: "string option \<Rightarrow> string option \<Rightarrow> string option" where
  "description_or a b = (case a of None \<Rightarrow> b | Some d \<Rightarrow> if d = [] then b else Some d)"

definition make_invoice_item :: "Product \<Rightarrow> InvoiceItemCreate \<Rightarrow> TaxBreakup \<Rightarrow> InvoiceItem" where
  "make_invoice_item product item_data tax_breakup =
     \<lparr>InvoiceItem_product_id = Some (Product_id product),
      InvoiceItem_product_name = Product_name product,
      InvoiceItem_description = description_or (item_description item_data) (Product_description product),
      InvoiceItem_hsn_code = Product_hsn_code product,
      InvoiceItem_quantity = item_quantity item_data,
      InvoiceItem_unit = Product_unit product,
      InvoiceItem_unit_price_paise = Product_price_paise product,
      InvoiceItem_gst_rate = Product_gst_rate product,
      InvoiceItem_taxable_amount_paise = taxable_amount_paise tax_breakup,
      InvoiceItem_cgst_paise = cgst_paise tax_breakup,
      InvoiceItem_sgst_paise = sgst_paise tax_breakup,
      InvoiceItem_igst_paise = igst_paise tax_breakup,
      InvoiceItem_gst_amount_paise = total_tax_paise tax_breakup,
      InvoiceItem_total_paise = total_amount_paise tax_breakup\<rparr>"

text \<open>
  The loop over \<open>invoice_data.items\<close> of \<open>create_invoice\<close>, on the products the session
  holds. It returns the tax breakups and the invoice items in request order, or the
  exception of the first line that fails; either way also the products as the loop left
  them, the stock of the lines before a failing one already reduced.
\<close>

fun process_items ::
  "BusinessProfile \<Rightarrow> Customer \<Rightarrow> InvoiceItemCreate list \<Rightarrow> Product list
    \<Rightarrow> (error + TaxBreakup list \<times> InvoiceItem list) \<times> Product list" where
  "process_items business customer [] ps = (Inr ([], []), ps)"
| "process_items business customer (item_data # rest) ps =
     (case find (\<lambda>p. Product_id p = item_product_id item_data \<and> Product_is_active p) ps of
        None \<Rightarrow> (Inl (HTTPException 404 (Product_not_found (item_product_id item_data))), ps)
      | Some product \<Rightarrow>
          (case validate_product_for_invoice product of
             Some e \<Rightarrow> (Inl e, ps)
           | None \<Rightarrow>
               (case reduce_stock product (item_quantity item_data) of
                  (False, _) \<Rightarrow>
                    (Inl (HTTPException 400
                       (Insufficient_stock (Product_name product) (Product_stock_quantity product)
                          (item_quantity item_data))), ps)
                | (True, product') \<Rightarrow>
                    (let ps' = update_first
                                 (\<lambda>p. Product_id p = item_product_id item_data \<and> Product_is_active p)
                                 (\<lambda>_. product') ps;
                         tax_breakup = calculate_line_item_tax (item_quantity item_data)
                                         (Product_price_paise product') (Product_gst_rate product')
                                         (Business_state_code business) (Customer_state_code customer);
                         invoice_item = make_invoice_item product' item_data tax_breakup
                     in (case process_items business customer rest ps' of
                           (Inl e, ps'') \<Rightarrow> (Inl e, ps'')
                         | (Inr (breakups, items), ps'') \<Rightarrow>
                             (Inr (tax_breakup # breakups, invoice_item # items), ps''))))))"

text \<open>
  \<open>db.add(invoice); db.commit(); db.refresh(invoice)\<close>: the row gets its key and
  everything pending is stored, unless the invoice number is already taken.
\<close>

definition add_and_commit :: "session \<Rightarrow> Invoice \<Rightarrow> (error + Invoice) \<times> session" where
  "add_and_commit db invoice =
     (if Invoice_invoice_number invoice \<in> set (map Invoice_invoice_number (invoices (pending db)))
      then (Inl IntegrityError, db)
      else (let row = invoice\<lparr>Invoice_id := next_id (map Invoice_id (invoices (pending db)))\<rparr>;
                db' = db\<lparr>pending := (pending db)\<lparr>invoices := invoices (pending db) @ [row]\<rparr>\<rparr>
            in (Inr row, db_commit db')))"

definition create_invoice ::
  "session \<Rightarrow> InvoiceCreate \<Rightarrow> User \<Rightarrow> BusinessProfile \<Rightarrow> Env \<Rightarrow> (error + Invoice) \<times> session" where
  "create_invoice db invoice_data current_user business env =
     (case validate_invoice_date env (req_invoice_date invoice_data) of
        Some e \<Rightarrow> (Inl e, db)
      | None \<Rightarrow>
     (case validate_business_profile business of
        Some e \<Rightarrow> (Inl e, db)
      | None \<Rightarrow>
     (case find (\<lambda>c. Customer_id c = req_customer_id invoice_data \<and> Customer_is_active c)
             (customers (pending db)) of
        None \<Rightarrow> (Inl (HTTPException 404 (Customer_not_found (req_customer_id invoice_data))), db)
      | Some customer \<Rightarrow>
     (case validate_customer_for_invoice env customer of
        Some e \<Rightarrow> (Inl e, db)
      | None \<Rightarrow>
     (let place_of_supply =
            (case req_place_of_supply invoice_data of
               None \<Rightarrow> Customer_state_code customer
             | Some pos \<Rightarrow> if pos = [] then Customer_state_code customer else pos)
      in if place_of_supply \<noteq> Customer_state_code customer
         then (Inl (HTTPException 400 Place_of_supply_mismatch), db)
         else
     (case process_items business customer (req_items invoice_data) (products (pending db)) of
        (Inl e, ps) \<Rightarrow> (Inl e, db\<lparr>pending := (pending db)\<lparr>products := ps\<rparr>\<rparr>)
      | (Inr (line_tax_breakups, items), ps) \<Rightarrow>
     (let db1 = db\<lparr>pending := (pending db)\<lparr>products := ps\<rparr>\<rparr>;
          invoice_totals = aggregate_invoice_taxes line_tax_breakups
      in case validate_client_totals (req_client_totals invoice_data) invoice_totals of
           Some e \<Rightarrow> (Inl e, db1)
         | None \<Rightarrow>
     (let (invoice_number, business') = generate_invoice_number business;
          db2 = db1\<lparr>pending := (pending db1)
                  \<lparr>business_profile :=
                     update_first (\<lambda>b. Business_id b = Business_id business) (\<lambda>_. business')
                       (business_profile (pending db1))\<rparr>\<rparr>;
          invoice =
            \<lparr>Invoice_id = 0,
             Invoice_invoice_number = invoice_number,
             Invoice_invoice_date = req_invoice_date invoice_data,
             Invoice_place_of_supply = place_of_supply,
             Invoice_invoice_type = ''TAX_INVOICE'',
             Invoice_status = ''FINAL'',
             Invoice_finalized_at = Some (utc_now env),
             Invoice_customer_id = Customer_id customer,
             Invoice_created_by = User_id current_user,
             Invoice_items = items,
             Invoice_customer_snapshot = create_customer_snapshot customer,
             Invoice_business_snapshot = create_business_snapshot business,
             Invoice_subtotal_paise = taxable_amount_paise invoice_totals,
             Invoice_cgst_paise = cgst_paise invoice_totals,
             Invoice_sgst_paise = sgst_paise invoice_totals,
             Invoice_igst_paise = igst_paise invoice_totals,
             Invoice_total_paise = total_amount_paise invoice_totals,
             Invoice_total_taxable_value_paise = taxable_amount_paise invoice_totals,
             Invoice_total_gst_paise = total_tax_paise invoice_totals,
             Invoice_grand_total_paise = total_amount_paise invoice_totals,
             Invoice_round_off_paise = 0,
             Invoice_is_cancelled = False,
             Invoice_cancelled_at = None,
             Invoice_cancellation_reason = None\<rparr>
      in add_and_commit db2 invoice))))))))"




text \<open>
  \<open>cancel_invoice\<close>. The loop over \<open>invoice.items\<close> first: \<open>if item.product_id\<close> skips
  a missing reference and the id 0, and the product is looked up by id alone.
\<close>

fun restore_stock :: "InvoiceItem list \<Rightarrow> Product list \<Rightarrow> Product list" where
  "restore_stock [] ps = ps"
| "restore_stock (item # rest) ps =
     restore_stock rest
       (case InvoiceItem_product_id item of
          None \<Rightarrow> ps
        | Some pid \<Rightarrow>
            if pid = 0 then ps
            else (case find (\<lambda>p. Product_id p = pid) ps of
                    None \<Rightarrow> ps
                  | Some product \<Rightarrow>
                      update_first (\<lambda>p. Product_id p = pid)
                        (\<lambda>_. product\<lparr>Product_stock_quantity :=
                                 Product_stock_quantity product + InvoiceItem_quantity item\<rparr>)
                        ps))"

definition cancel_invoice ::
  "session \<Rightarrow> int \<Rightarrow> string \<Rightarrow> Env \<Rightarrow> (error + Invoice) \<times> session" where
  "cancel_invoice db invoice_id reason env =
     (case find (\<lambda>i. Invoice_id i = invoice_id) (invoices (pending db)) of
        None \<Rightarrow> (Inl (HTTPException 404 (Invoice_not_found invoice_id)), db)
      | Some invoice \<Rightarrow>
          if Invoice_is_cancelled invoice
          then (Inl (HTTPException 400 (Invoice_already_cancelled (Invoice_invoice_number invoice))), db)
          else
            (let ps = restore_stock (Invoice_items invoice) (products (pending db));
                 invoice' = (Invoice_cancel env invoice reason)\<lparr>Invoice_status := ''CANCELLED''\<rparr>;
                 db' = db\<lparr>pending := (pending db)
                          \<lparr>products := ps,
                           invoices := update_first (\<lambda>i. Invoice_id i = invoice_id) (\<lambda>_. invoice')
                                         (invoices (pending db))\<rparr>\<rparr>
             in (Inr invoice', db_commit db')))"

text \<open>The route \<open>POST /api/invoices/{invoice_id}/cancel\<close>.\<close>

definition cancel_invoice_route ::
  "database \<Rightarrow> int \<Rightarrow> string \<Rightarrow> Env \<Rightarrow> (error + Invoice) \<times> database" where
  "cancel_invoice_route stored invoice_id reason env =
     (case cancel_invoice (SessionLocal stored) invoice_id reason env of
        (result, db') \<Rightarrow> (result, db_close db'))"

section \<open>Purchase tax (app/services/purchase_gst_calculator.py)\<close>

text \<open>
  \<open>int(x)\<close> on a float truncates toward zero. The float products and quotients of
  \<open>calculate_purchase_item_tax\<close> are taken as exact, that is, floats are modelled by the
  rationals they approximate.
\<close>

definition py_int :: "rat \<Rightarrow> int" where
  "py_int x = (if 0 \<le> x then \<lfloor>x\<rfloor> else \<lceil>x\<rceil>)"



section \<open>Purchase finalization (app/api/purchases.py)\<close>

text \<open>The two loops of \<open>finalize_purchase\<close> over \<open>purchase.items\<close>.\<close>

fun missing_hsns :: "PurchaseItem list \<Rightarrow> Product list \<Rightarrow> string list" where
  "missing_hsns [] ps = []"
| "missing_hsns (item # rest) ps =
     (case find (\<lambda>p. Product_hsn_code p = PurchaseItem_hsn_code item \<and> Product_is_active p) ps of
        None \<Rightarrow> PurchaseItem_hsn_code item # missing_hsns rest ps
      | Some _ \<Rightarrow> missing_hsns rest ps)"

fun add_stock :: "PurchaseItem list \<Rightarrow> Product list \<Rightarrow> Product list" where
  "add_stock [] ps = ps"
| "add_stock (item # rest) ps =
     add_stock rest
       (case find (\<lambda>p. Product_hsn_code p = PurchaseItem_hsn_code item \<and> Product_is_active p) ps of
          None \<Rightarrow> ps
        | Some product \<Rightarrow>
            update_first (\<lambda>p. Product_hsn_code p = PurchaseItem_hsn_code item \<and> Product_is_active p)
              (\<lambda>_. product\<lparr>Product_stock_quantity :=
                       Product_stock_quantity product + py_int (PurchaseItem_quantity item)\<rparr>)
              ps)"

text \<open>\<open>sorted(set(missing_hsns))\<close>: Python orders strings as lists of code points.\<close>

definition finalize_purchase ::
  "session \<Rightarrow> int \<Rightarrow> Env \<Rightarrow> (error + PurchaseInvoice) \<times> session" where
  "finalize_purchase db purchase_id env =
     (case find (\<lambda>p. Purchase_id p = purchase_id) (purchase_invoices (pending db)) of
        None \<Rightarrow> (Inl (HTTPException 404 Purchase_not_found), db)
      | Some purchase \<Rightarrow>
          if Purchase_status purchase = ''Finalized''
          then (Inl (HTTPException 400 Purchase_already_finalized), db)
          else if Purchase_status purchase = ''Cancelled''
          then (Inl (HTTPException 400 Cannot_finalize_cancelled), db)
          else
            (let missing = missing_hsns (Purchase_items purchase) (products (pending db))
             in if missing \<noteq> []
                then (let unique_missing = sort (remdups missing)
                      in (Inl (HTTPException 400 (Missing_products_for_HSN unique_missing)), db))
                else
                  (let ps = add_stock (Purchase_items purchase) (products (pending db));
                       purchase' = purchase\<lparr>Purchase_status := ''Finalized'',
                                            Purchase_finalized_at := Some (utc_now env)\<rparr>;
                       db' = db\<lparr>pending := (pending db)
                                \<lparr>products := ps,
                                 purchase_invoices :=
                                   update_first (\<lambda>p. Purchase_id p = purchase_id) (\<lambda>_. purchase')
                                     (purchase_invoices (pending db))\<rparr>\<rparr>
                   in (Inr purchase', db_commit db'))))"

definition finalize_purchase_route ::
  "database \<Rightarrow> int \<Rightarrow> Env \<Rightarrow> (error + PurchaseInvoice) \<times> database" where
  "finalize_purchase_route stored purchase_id env =
     (case finalize_purchase (SessionLocal stored) purchase_id env of
        (result, db') \<Rightarrow> (result, db_close db'))"

section \<open>GST summary report (app/services/report_service.py)\<close>

text \<open>
  The report adds Python floats; they are modelled by the rationals they approximate, and
  \<open>round(x, 2)\<close> by rounding to a multiple of 1/100, a tie going to the even neighbour.
\<close>

definition round2 :: "rat \<Rightarrow> rat" where
  "round2 x = of_int (round_gst_amount (x * 100)) / 100"

definition total_gst_rupees :: "Invoice \<Rightarrow> rat" where
  "total_gst_rupees self = of_int (Invoice_total_gst_paise self) / 100"

record GSTSummaryAmounts =
  summary_cgst :: rat
  summary_sgst :: rat
  summary_igst :: rat
  summary_total :: rat

record GSTSummaryResponse =
  summary_month :: int
  summary_year :: int
  output_gst :: GSTSummaryAmounts
  input_gst :: GSTSummaryAmounts
  sales_count :: nat
  purchase_count :: nat

text \<open>The loop over the sales invoices, with its three running sums.\<close>

fun accumulate_output ::
  "BusinessProfile option \<Rightarrow> Invoice list \<Rightarrow> rat \<times> rat \<times> rat \<Rightarrow> rat \<times> rat \<times> rat" where
  "accumulate_output business [] acc = acc"
| "accumulate_output business (invoice # rest) (output_cgst, output_sgst, output_igst) =
     accumulate_output business rest
       (if (case business of None \<Rightarrow> False
            | Some b \<Rightarrow> Invoice_place_of_supply invoice = Business_state_code b)
        then (output_cgst + total_gst_rupees invoice / 2, output_sgst + total_gst_rupees invoice / 2, output_igst)
        else (output_cgst, output_sgst, output_igst + total_gst_rupees invoice))"

text \<open>
  \<open>generate_gst_summary\<close>. A date bound compared with the DateTime column
  \<open>purchase_date\<close> stands for midnight of that day. The loop over the purchases reads
  \<open>purchase.total_gst_rupees\<close>, which \<open>PurchaseInvoice\<close> does not define, so it raises
  on the first purchase the query returned.
\<close>

definition generate_gst_summary :: "database \<Rightarrow> date \<Rightarrow> date \<Rightarrow> error + GSTSummaryResponse" where
  "generate_gst_summary db from_date to_date =
     (let sales = filter (\<lambda>i. from_date \<le> Invoice_invoice_date i
                               \<and> Invoice_invoice_date i \<le> to_date
                               \<and> Invoice_status i = ''FINAL'') (invoices db);
          purchases = filter (\<lambda>p. (from_date, 0) \<le> Purchase_purchase_date p
                                   \<and> Purchase_purchase_date p \<le> (to_date, 0)
                                   \<and> Purchase_status p = ''FINAL'') (purchase_invoices db);
          business = (case business_profile db of [] \<Rightarrow> None | b # _ \<Rightarrow> Some b);
          (output_cgst, output_sgst, output_igst) = accumulate_output business sales (0, 0, 0)
      in if purchases \<noteq> [] then Inl (AttributeError ''total_gst_rupees'')
         else
           (let input_cgst = 0; input_sgst = 0; input_igst = 0
            in Inr \<lparr>summary_month = fst (snd to_date),
                    summary_year = fst to_date,
                    output_gst = \<lparr>summary_cgst = round2 output_cgst,
                                  summary_sgst = round2 output_sgst,
                                  summary_igst = round2 output_igst,
                                  summary_total = round2 (output_cgst + output_sgst + output_igst)\<rparr>,
                    input_gst = \<lparr>summary_cgst = round2 input_cgst,
                                 summary_sgst = round2 input_sgst,
                                 summary_igst = round2 input_igst,
                                 summary_total = round2 (input_cgst + input_sgst + input_igst)\<rparr>,
                    sales_count = length sales,
                    purchase_count = length purchases\<rparr>))"


section \<open>Definitions that follow the specification\<close>


section \<open>Properties and example data\<close>


text \<open>A small shop in Karnataka, used to run the model on concrete requests.\<close>

definition ex_env :: Env where
  "ex_env = \<lparr>today = (2025, 12, 31), utc_now = ((2025, 12, 31), 0),
             gstin_checksum_enforced = False\<rparr>"

definition ex_business :: BusinessProfile where
  "ex_business =
     \<lparr>Business_id = 1, Business_name = ''Shop'', Business_gstin = ''29ABCDE1234F1Z5'',
      Business_state_code = ''29'', Business_address = ''1 Main Road'',
      Business_city = ''Bengaluru'', Business_pincode = ''560001'', Business_phone = None,
      Business_email = None, Business_invoice_prefix = ''INV'',
      Business_invoice_start_number = 1, Business_current_invoice_number = 1\<rparr>"

definition ex_user :: User where
  "ex_user = \<lparr>User_id = 1, User_username = ''admin''\<rparr>"

definition ex_customer :: Customer where
  "ex_customer =
     \<lparr>Customer_id = 1, Customer_name = ''Asha'', Customer_customer_type = ''B2C'',
      Customer_gstin = None, Customer_address = ''2 Lake Road'', Customer_state = ''Karnataka'',
      Customer_state_code = ''29'', Customer_phone = None, Customer_email = None,
      Customer_is_active = True\<rparr>"

definition ex_pen :: Product where
  "ex_pen =
     \<lparr>Product_id = 1, Product_name = ''Pen'', Product_description = None,
      Product_hsn_code = ''1001'', Product_gst_rate = 18, Product_price_paise = 10000,
      Product_stock_quantity = 10, Product_unit = ''PCS'', Product_is_active = True\<rparr>"

definition ex_ink :: Product where
  "ex_ink =
     \<lparr>Product_id = 2, Product_name = ''Ink'', Product_description = None,
      Product_hsn_code = ''1002'', Product_gst_rate = 5, Product_price_paise = 50,
      Product_stock_quantity = 1, Product_unit = ''PCS'', Product_is_active = True\<rparr>"

definition ex_db :: database where
  "ex_db =
     \<lparr>customers = [ex_customer], products = [ex_pen, ex_ink],
      business_profile = [ex_business], invoices = [], purchase_invoices = []\<rparr>"

definition ex_request :: InvoiceCreate where
  "ex_request =
     \<lparr>req_customer_id = 1, req_invoice_date = (2025, 12, 1), req_place_of_supply = None,
      req_items = [\<lparr>item_product_id = 1, item_quantity = 2, item_description = None\<rparr>,
                   \<lparr>item_product_id = 2, item_quantity = 1, item_description = None\<rparr>],
      req_client_totals =
        Some \<lparr>total_taxable_value = 401 / 2, total_gst = 1801 / 50, grand_total = 5913 / 25\<rparr>\<rparr>"


definition ex_purchase :: PurchaseInvoice where
  "ex_purchase =
     \<lparr>Purchase_id = 1, Purchase_supplier_id = 1, Purchase_supplier_invoice_no = ''S-1'',
      Purchase_supplier_invoice_date = ((2025, 12, 10), 0),
      Purchase_purchase_date = ((2025, 12, 10), 0),
      Purchase_place_of_supply = ''Karnataka'', Purchase_place_of_supply_code = ''29'',
      Purchase_total_quantity = 1, Purchase_subtotal_value = 10000,
      Purchase_cgst_amount = 900, Purchase_sgst_amount = 900, Purchase_igst_amount = 0,
      Purchase_total_gst = 1800, Purchase_total_amount = 11800,
      Purchase_status = ''Finalized'', Purchase_cancel_reason = None,
      Purchase_is_active = True, Purchase_finalized_at = Some ((2025, 12, 10), 1),
      Purchase_cancelled_at = None,
      Purchase_items =
        [\<lparr>PurchaseItem_item_name = ''Pen'', PurchaseItem_hsn_code = ''1001'',
          PurchaseItem_quantity = 1, PurchaseItem_rate = 10000, PurchaseItem_gst_rate = 18,
          PurchaseItem_taxable_value = 10000, PurchaseItem_gst_amount = 1800,
          PurchaseItem_cgst_amount = 900, PurchaseItem_sgst_amount = 900,
          PurchaseItem_igst_amount = 0, PurchaseItem_total_amount = 11800,
          PurchaseItem_tax_type = ''CGST_SGST''\<rparr>]\<rparr>"

definition ex_purchase_db :: database where
  "ex_purchase_db =
     \<lparr>customers = [], products = [], business_profile = [ex_business], invoices = [],
      purchase_invoices = [ex_purchase]\<rparr>"

text \<open>
  The quantity an invoice's items recorded for the product with a given id.
\<close>

definition restored_quantity :: "InvoiceItem list \<Rightarrow> int \<Rightarrow> int" where
  "restored_quantity items pid =
     sum_list (map InvoiceItem_quantity (filter (\<lambda>item. InvoiceItem_product_id item = Some pid) items))"

text \<open>
  An invoice of the shop for two pens, one ink and three caps, as stored after the sale.
\<close>

definition ex_sold_invoice :: Invoice where
  "ex_sold_invoice =
     \<lparr>Invoice_id = 1, Invoice_invoice_number = ''INV000001'',
      Invoice_invoice_date = (2025, 12, 1), Invoice_place_of_supply = ''29'',
      Invoice_invoice_type = ''TAX_INVOICE'', Invoice_status = ''FINAL'',
      Invoice_finalized_at = Some ((2025, 12, 1), 0), Invoice_customer_id = 1,
      Invoice_created_by = 1,
      Invoice_items =
        [\<lparr>InvoiceItem_product_id = Some 1, InvoiceItem_product_name = ''Pen'',
          InvoiceItem_description = None, InvoiceItem_hsn_code = ''1001'',
          InvoiceItem_quantity = 2, InvoiceItem_unit = ''PCS'',
          InvoiceItem_unit_price_paise = 10000, InvoiceItem_gst_rate = 18,
          InvoiceItem_taxable_amount_paise = 20000, InvoiceItem_cgst_paise = 1800,
          InvoiceItem_sgst_paise = 1800, InvoiceItem_igst_paise = 0,
          InvoiceItem_gst_amount_paise = 3600, InvoiceItem_total_paise = 23600\<rparr>,
         \<lparr>InvoiceItem_product_id = Some 2, InvoiceItem_product_name = ''Ink'',
          InvoiceItem_description = None, InvoiceItem_hsn_code = ''1002'',
          InvoiceItem_quantity = 1, InvoiceItem_unit = ''PCS'',
          InvoiceItem_unit_price_paise = 50, InvoiceItem_gst_rate = 5,
          InvoiceItem_taxable_amount_paise = 50, InvoiceItem_cgst_paise = 1,
          InvoiceItem_sgst_paise = 1, InvoiceItem_igst_paise = 0,
          InvoiceItem_gst_amount_paise = 2, InvoiceItem_total_paise = 52\<rparr>,
         \<lparr>InvoiceItem_product_id = Some 9, InvoiceItem_product_name = ''Cap'',
          InvoiceItem_description = None, InvoiceItem_hsn_code = ''1003'',
          InvoiceItem_quantity = 3, InvoiceItem_unit = ''PCS'',
          InvoiceItem_unit_price_paise = 100, InvoiceItem_gst_rate = 0,
          InvoiceItem_taxable_amount_paise = 300, InvoiceItem_cgst_paise = 0,
          InvoiceItem_sgst_paise = 0, InvoiceItem_igst_paise = 0,
          InvoiceItem_gst_amount_paise = 0, InvoiceItem_total_paise = 300\<rparr>],
      Invoice_customer_snapshot = create_customer_snapshot ex_customer,
      Invoice_business_snapshot = create_business_snapshot ex_business,
      Invoice_subtotal_paise = 20350, Invoice_cgst_paise = 1801, Invoice_sgst_paise = 1801,
      Invoice_igst_paise = 0, Invoice_total_paise = 23952,
      Invoice_total_taxable_value_paise = 20350, Invoice_total_gst_paise = 3602,
      Invoice_grand_total_paise = 23952, Invoice_round_off_paise = 0,
      Invoice_is_cancelled = False, Invoice_cancelled_at = None,
      Invoice_cancellation_reason = None\<rparr>"

text \<open>
  The shop after that sale: the ink has since been deactivated, and the product with id 9
  no longer exists.
\<close>

definition ex_sold_db :: database where
  "ex_sold_db =
     \<lparr>customers = [ex_customer],
      products = [ex_pen\<lparr>Product_stock_quantity := 8\<rparr>,
                  ex_ink\<lparr>Product_stock_quantity := 0, Product_is_active := False\<rparr>],
      business_profile = [ex_business\<lparr>Business_current_invoice_number := 2\<rparr>],
      invoices = [ex_sold_invoice], purchase_invoices = []\<rparr>"

text \<open>
  The HSN codes of the purchase lines for which no active product with that code exists;
  whether a product is the first active one with its HSN code, the one a purchase line
  with that code resolves to; and the whole units the lines with a given HSN code bring.
\<close>

definition unresolved_hsns :: "PurchaseItem list \<Rightarrow> Product list \<Rightarrow> string set" where
  "unresolved_hsns items ps =
     set (map PurchaseItem_hsn_code
            (filter (\<lambda>item. \<not> list_ex (\<lambda>p. Product_hsn_code p = PurchaseItem_hsn_code item
                                          \<and> Product_is_active p) ps) items))"

definition receiving_product :: "Product list \<Rightarrow> Product \<Rightarrow> bool" where
  "receiving_product ps p =
     (find (\<lambda>q. Product_hsn_code q = Product_hsn_code p \<and> Product_is_active q) ps = Some p)"

definition received_quantity :: "PurchaseItem list \<Rightarrow> string \<Rightarrow> int" where
  "received_quantity items hsn =
     sum_list (map (\<lambda>item. py_int (PurchaseItem_quantity item))
                 (filter (\<lambda>item. PurchaseItem_hsn_code item = hsn) items))"

text \<open>Two draft purchases, one of them with lines that match no product.\<close>

definition ex_draft_purchase :: PurchaseInvoice where
  "ex_draft_purchase =
     ex_purchase\<lparr>Purchase_id := 2, Purchase_status := ''Draft'', Purchase_finalized_at := None,
       Purchase_items :=
         [\<lparr>PurchaseItem_item_name = ''Pen'', PurchaseItem_hsn_code = ''1001'',
           PurchaseItem_quantity = 5 / 2, PurchaseItem_rate = 10000, PurchaseItem_gst_rate = 18,
           PurchaseItem_taxable_value = 25000, PurchaseItem_gst_amount = 4500,
           PurchaseItem_cgst_amount = 2250, PurchaseItem_sgst_amount = 2250,
           PurchaseItem_igst_amount = 0, PurchaseItem_total_amount = 29500,
           PurchaseItem_tax_type = ''CGST_SGST''\<rparr>]\<rparr>"

definition ex_unmatched_purchase :: PurchaseInvoice where
  "ex_unmatched_purchase =
     ex_purchase\<lparr>Purchase_id := 3, Purchase_status := ''Draft'', Purchase_finalized_at := None,
       Purchase_items :=
         map (\<lambda>hsn.
               \<lparr>PurchaseItem_item_name = ''Part'', PurchaseItem_hsn_code = hsn,
                PurchaseItem_quantity = 1, PurchaseItem_rate = 100, PurchaseItem_gst_rate = 0,
                PurchaseItem_taxable_value = 100, PurchaseItem_gst_amount = 0,
                PurchaseItem_cgst_amount = 0, PurchaseItem_sgst_amount = 0,
                PurchaseItem_igst_amount = 0, PurchaseItem_total_amount = 100,
                PurchaseItem_tax_type = ''CGST_SGST''\<rparr>)
           [''9999'', ''1001'', ''8888'', ''9999'']\<rparr>"

definition ex_stock_db :: database where
  "ex_stock_db =
     \<lparr>customers = [], products = [ex_pen, ex_ink], business_profile = [ex_business],
      invoices = [],
      purchase_invoices = [ex_purchase, ex_draft_purchase, ex_unmatched_purchase]\<rparr>"


section \<open>Rounding\<close>

lemma round_gst_amount_floor_bounds:
  "\<lfloor>x\<rfloor> \<le> round_gst_amount x \<and> round_gst_amount x \<le> \<lfloor>x\<rfloor> + 1"
  by (simp add: round_gst_amount_def Let_def)

lemma round_gst_amount_small:
  assumes "0 \<le> x" "x < 1"
  shows "round_gst_amount x = (if 1 / 2 < x then 1 else 0)"
proof -
  have "\<lfloor>x\<rfloor> = 0" using assms by (simp add: floor_eq_iff)
  then show ?thesis by (simp add: round_gst_amount_def Let_def)
qed

lemma round_gst_amount_pos_iff:
  assumes "0 \<le> x"
  shows "(0 < round_gst_amount x) = (1 / 2 < x)"
proof (cases "x < 1")
  case True
  with assms show ?thesis by (simp add: round_gst_amount_small)
next
  case False
  then have "1 \<le> \<lfloor>x\<rfloor>" by (simp add: le_floor_iff)
  with round_gst_amount_floor_bounds [of x] have "0 < round_gst_amount x" by linarith
  with False show ?thesis by simp
qed

lemma round_gst_amount_nonneg: 
  assumes "0 \<le> x" shows "0 \<le> round_gst_amount x"
proof -
  have "0 \<le> \<lfloor>x\<rfloor>" using assms by simp
  with round_gst_amount_floor_bounds [of x] show ?thesis by linarith
qed

lemma round_gst_amount_zero [simp]: "round_gst_amount 0 = 0"
  by (simp add: round_gst_amount_def)





text \<open>
  Claim C1, as the code has it. For a non-negative taxable amount and an allowed rate:
  with equal state codes CGST equals SGST and IGST is 0; with different state codes CGST
  and SGST are 0 and IGST is not negative, and it is positive exactly when amount times
  rate exceeds 50, that is, when the exact tax is more than half a paisa; with rate 0 all
  three components are 0.
\<close>

theorem calculate_gst_components:
  assumes "0 \<le> taxable_amount" and "gst_rate \<in> ALLOWED_GST_RATES"
  shows "(seller = buyer \<longrightarrow>
            cgst_paise (calculate_gst taxable_amount gst_rate seller buyer)
              = sgst_paise (calculate_gst taxable_amount gst_rate seller buyer)
          \<and> igst_paise (calculate_gst taxable_amount gst_rate seller buyer) = 0)
       \<and> (seller \<noteq> buyer \<longrightarrow>
            cgst_paise (calculate_gst taxable_amount gst_rate seller buyer) = 0
          \<and> sgst_paise (calculate_gst taxable_amount gst_rate seller buyer) = 0
          \<and> 0 \<le> igst_paise (calculate_gst taxable_amount gst_rate seller buyer)
          \<and> (0 < igst_paise (calculate_gst taxable_amount gst_rate seller buyer)
               \<longleftrightarrow> 50 < of_int taxable_amount * gst_rate))
       \<and> (gst_rate = 0 \<longrightarrow>
            cgst_paise (calculate_gst taxable_amount gst_rate seller buyer) = 0
          \<and> sgst_paise (calculate_gst taxable_amount gst_rate seller buyer) = 0
          \<and> igst_paise (calculate_gst taxable_amount gst_rate seller buyer) = 0)"
proof -
  have rate: "0 \<le> gst_rate" using assms(2) by (auto simp: ALLOWED_GST_RATES_def)
  have x: "0 \<le> of_int taxable_amount * gst_rate / 100" using assms(1) rate by simp
  have pos: "(0 < calculate_percentage taxable_amount gst_rate)
               = (50 < of_int taxable_amount * gst_rate)"
    unfolding calculate_percentage_def round_gst_amount_pos_iff [OF x] by auto
  have nonneg: "0 \<le> calculate_percentage taxable_amount gst_rate"
    unfolding calculate_percentage_def by (rule round_gst_amount_nonneg [OF x])
  show ?thesis
    using pos nonneg
    by (simp add: calculate_gst_def Let_def calculate_percentage_def)
qed

theorem calculate_gst_components_witness:
  "(0::int) \<le> 10000 \<and> (18::rat) \<in> ALLOWED_GST_RATES
   \<and> 0 < igst_paise (calculate_gst 10000 18 ''29'' ''27'')
   \<and> cgst_paise (calculate_gst 10000 18 ''29'' ''29'') = sgst_paise (calculate_gst 10000 18 ''29'' ''29'')"
proof -
  have h1: "(0::int) \<le> 10000" by simp
  have h2: "(18::rat) \<in> ALLOWED_GST_RATES" by (simp add: ALLOWED_GST_RATES_def)
  show ?thesis
    using h1 h2 calculate_gst_components [OF h1 h2, of "''29''" "''27''"]
      calculate_gst_components [OF h1 h2, of "''29''" "''29''"]
    by simp
qed

text \<open>
  Claim C1 as stated fails: one paisa at 5 percent between two states gives the exact tax
  0.05 paise, which rounds to an IGST of 0.
\<close>

theorem igst_positive_counterexample:
  "(0::int) \<le> 1 \<and> (5::rat) \<in> ALLOWED_GST_RATES \<and> ''29'' \<noteq> ''27'' \<and> (5::rat) \<noteq> 0
   \<and> \<not> 0 < igst_paise (calculate_gst 1 5 ''29'' ''27'')"
  by (simp add: ALLOWED_GST_RATES_def calculate_gst_def calculate_percentage_def
        round_gst_amount_small)





section \<open>Purchase tax against the Tax Engine\<close>


lemma round_gst_amount_of_int [simp]: "round_gst_amount (of_int n) = n"
  by (simp add: round_gst_amount_def)





section \<open>Invoice creation\<close>





lemma add_and_commit_success:
  "add_and_commit db invoice = (Inr row, db') \<Longrightarrow>
     row = invoice\<lparr>Invoice_id := next_id (map Invoice_id (invoices (pending db)))\<rparr>"
  by (auto simp: add_and_commit_def Let_def split: if_splits)

lemma create_invoice_success:
  assumes "create_invoice db invoice_data current_user business env = (Inr invoice, db')"
  shows "\<exists>customer breakups ps.
           find (\<lambda>c. Customer_id c = req_customer_id invoice_data \<and> Customer_is_active c)
             (customers (pending db)) = Some customer
         \<and> process_items business customer (req_items invoice_data) (products (pending db))
             = (Inr (breakups, Invoice_items invoice), ps)
         \<and> validate_client_totals (req_client_totals invoice_data)
             (aggregate_invoice_taxes breakups) = None
         \<and> Invoice_customer_snapshot invoice = create_customer_snapshot customer
         \<and> Invoice_subtotal_paise invoice = taxable_amount_paise (aggregate_invoice_taxes breakups)
         \<and> Invoice_cgst_paise invoice = cgst_paise (aggregate_invoice_taxes breakups)
         \<and> Invoice_sgst_paise invoice = sgst_paise (aggregate_invoice_taxes breakups)
         \<and> Invoice_igst_paise invoice = igst_paise (aggregate_invoice_taxes breakups)
         \<and> Invoice_total_paise invoice = total_amount_paise (aggregate_invoice_taxes breakups)
         \<and> Invoice_total_taxable_value_paise invoice
             = taxable_amount_paise (aggregate_invoice_taxes breakups)
         \<and> Invoice_total_gst_paise invoice = total_tax_paise (aggregate_invoice_taxes breakups)
         \<and> Invoice_grand_total_paise invoice = total_amount_paise (aggregate_invoice_taxes breakups)"
  using assms
  by (auto simp: create_invoice_def Let_def generate_invoice_number_def
      split: option.splits prod.splits sum.splits if_splits
      dest!: add_and_commit_success)








lemma validate_client_totals_iff:
  "validate_client_totals (Some ct) computed =
     (if total_taxable_value ct = of_int (taxable_amount_paise computed) / 100
         \<and> total_gst ct = of_int (total_tax_paise computed) / 100
         \<and> grand_total ct = of_int (total_amount_paise computed) / 100
      then None else Some (HTTPException 400 Totals_mismatch))"
  by (auto simp: validate_client_totals_def Let_def)

lemma process_items_error_not_totals:
  "fst (process_items business customer items ps) \<noteq> Inl (HTTPException 400 Totals_mismatch)"
proof (induction items arbitrary: ps)
  case Nil
  then show ?case by simp
next
  case (Cons item_data rest)
  have "process_items business customer rest ps1 = (Inl (HTTPException 400 Totals_mismatch), ps2)
          \<Longrightarrow> False" for ps1 ps2
    using Cons.IH [of ps1] by auto
  then show ?case
    by (auto simp: Let_def validate_product_for_invoice_def
        split: option.splits prod.splits bool.splits sum.splits if_splits)
qed

lemma add_and_commit_error_not_totals:
  "fst (add_and_commit db invoice) \<noteq> Inl (HTTPException 400 Totals_mismatch)"
  by (simp add: add_and_commit_def Let_def)

lemma create_invoice_no_totals_check:
  assumes "req_client_totals invoice_data = None"
  shows "fst (create_invoice db invoice_data current_user business env)
           \<noteq> Inl (HTTPException 400 Totals_mismatch)"
proof -
  have p: "process_items business customer (req_items invoice_data) ps
             = (Inl (HTTPException 400 Totals_mismatch), ps1) \<Longrightarrow> False" for customer ps ps1
    using process_items_error_not_totals [of business customer "req_items invoice_data" ps] by auto
  show ?thesis
    using assms p
    by (auto simp: create_invoice_def Let_def generate_invoice_number_def
        validate_client_totals_def validate_invoice_date_def validate_business_profile_def
        validate_customer_for_invoice_def add_and_commit_error_not_totals
      split: option.splits prod.splits sum.splits if_splits)
qed

text \<open>
  Claim C7. If a request with \<open>client_totals\<close> succeeds, the asserted taxable value, GST
  and grand total each equal the computed total in paise divided by 100. The check itself
  passes exactly when all three are equal and otherwise raises the 400 error "Provided
  totals do not match server-calculated totals", so a difference of one paisa (0.01) in any
  figure rejects the invoice. Without \<open>client_totals\<close> the check passes and
  \<open>create_invoice\<close> never fails with that error.
\<close>

theorem client_totals_exact_match:
  "(create_invoice db invoice_data current_user business env = (Inr invoice, db') \<longrightarrow>
      (case req_client_totals invoice_data of
         None \<Rightarrow> True
       | Some ct \<Rightarrow>
           total_taxable_value ct = of_int (Invoice_total_taxable_value_paise invoice) / 100
         \<and> total_gst ct = of_int (Invoice_total_gst_paise invoice) / 100
         \<and> grand_total ct = of_int (Invoice_grand_total_paise invoice) / 100))
   \<and> validate_client_totals (Some ct') computed =
       (if total_taxable_value ct' = of_int (taxable_amount_paise computed) / 100
           \<and> total_gst ct' = of_int (total_tax_paise computed) / 100
           \<and> grand_total ct' = of_int (total_amount_paise computed) / 100
        then None else Some (HTTPException 400 Totals_mismatch))
   \<and> validate_client_totals None computed = None
   \<and> (req_client_totals invoice_data = None \<longrightarrow>
        fst (create_invoice db invoice_data current_user business env)
          \<noteq> Inl (HTTPException 400 Totals_mismatch))"
proof -
  have "create_invoice db invoice_data current_user business env = (Inr invoice, db') \<Longrightarrow>
      (case req_client_totals invoice_data of
         None \<Rightarrow> True
       | Some ct \<Rightarrow>
           total_taxable_value ct = of_int (Invoice_total_taxable_value_paise invoice) / 100
         \<and> total_gst ct = of_int (Invoice_total_gst_paise invoice) / 100
         \<and> grand_total ct = of_int (Invoice_grand_total_paise invoice) / 100)"
  proof -
    assume a: "create_invoice db invoice_data current_user business env = (Inr invoice, db')"
    from create_invoice_success [OF a] show ?thesis
      by (auto simp: validate_client_totals_iff split: option.splits if_splits)
  qed
  then show ?thesis
    using create_invoice_no_totals_check [of invoice_data db current_user business env]
    by (simp add: validate_client_totals_iff) (simp add: validate_client_totals_def)
qed


lemma SessionLocal_simps [simp]:
  "committed (SessionLocal stored) = stored" "pending (SessionLocal stored) = stored"
  by (simp_all add: SessionLocal_def)

lemma ex_request_succeeds:
  "\<exists>invoice db'. create_invoice (SessionLocal ex_db) ex_request ex_user ex_business ex_env
      = (Inr invoice, db')"
proof -
  have "isl (fst (create_invoice (SessionLocal ex_db) ex_request ex_user ex_business ex_env)) = False"
    by code_simp
  moreover obtain r d where
    "create_invoice (SessionLocal ex_db) ex_request ex_user ex_business ex_env = (r, d)"
    by force
  ultimately show ?thesis by (cases r) auto
qed



theorem client_totals_exact_match_witness:
  "case create_invoice (SessionLocal ex_db) ex_request ex_user ex_business ex_env of
     (Inr invoice, db') \<Rightarrow>
        of_int (Invoice_total_taxable_value_paise invoice) / 100 = (401 / 2 :: rat)
      \<and> of_int (Invoice_total_gst_paise invoice) / 100 = (1801 / 50 :: rat)
      \<and> of_int (Invoice_grand_total_paise invoice) / 100 = (5913 / 25 :: rat)
   | (Inl e, db') \<Rightarrow> False"
proof -
  from ex_request_succeeds obtain invoice db' where
    eq: "create_invoice (SessionLocal ex_db) ex_request ex_user ex_business ex_env = (Inr invoice, db')"
    by blast
  have ct: "req_client_totals ex_request
     = Some \<lparr>total_taxable_value = 401 / 2, total_gst = 1801 / 50, grand_total = 5913 / 25\<rparr>"
    by (simp add: ex_request_def)
  from client_totals_exact_match [of "SessionLocal ex_db" ex_request ex_user ex_business ex_env invoice db']
  show ?thesis by (simp add: eq ct)
qed



section \<open>GST summary\<close>

lemma round2_zero [simp]: "round2 0 = 0"
  by (simp add: round2_def round_gst_amount_def)

lemma round2_hundredths: "round2 (of_int n / 100) = of_int n / 100"
  by (simp add: round2_def)

lemma accumulate_output_total:
  "accumulate_output business sales (c, s, i) = (c', s', i') \<Longrightarrow>
     c' + s' + i' = c + s + i + of_int (sum_list (map Invoice_total_gst_paise sales)) / 100"
proof (induction sales arbitrary: c s i)
  case Nil
  then show ?case by simp
next
  case (Cons invoice rest)
  show ?case
  proof (cases "case business of None \<Rightarrow> False
                | Some b \<Rightarrow> Invoice_place_of_supply invoice = Business_state_code b")
    case True
    with Cons.prems have "accumulate_output business rest
        (c + total_gst_rupees invoice / 2, s + total_gst_rupees invoice / 2, i) = (c', s', i')"
      by simp
    from Cons.IH [OF this] show ?thesis
      by (simp add: total_gst_rupees_def add_divide_distrib)
  next
    case False
    with Cons.prems have "accumulate_output business rest
        (c, s, i + total_gst_rupees invoice) = (c', s', i')"
      by simp
    from Cons.IH [OF this] show ?thesis
      by (simp add: total_gst_rupees_def add_divide_distrib)
  qed
qed

text \<open>
  The output side of the report: the total is the stored total GST, in rupees, summed over
  the FINAL sales invoices dated in the period.
\<close>

lemma gst_summary_output_total:
  assumes "generate_gst_summary db from_date to_date = Inr r"
  shows "summary_total (output_gst r)
           = of_int (sum_list (map Invoice_total_gst_paise
                 (filter (\<lambda>i. from_date \<le> Invoice_invoice_date i
                               \<and> Invoice_invoice_date i \<le> to_date
                               \<and> Invoice_status i = ''FINAL'') (invoices db)))) / 100"
proof -
  define sales where "sales = filter (\<lambda>i. from_date \<le> Invoice_invoice_date i
                               \<and> Invoice_invoice_date i \<le> to_date
                               \<and> Invoice_status i = ''FINAL'') (invoices db)"
  define business where "business = (case business_profile db of [] \<Rightarrow> None | b # _ \<Rightarrow> Some b)"
  obtain c s i where acc: "accumulate_output business sales (0, 0, 0) = (c, s, i)"
    by (metis prod_cases3)
  from accumulate_output_total [OF acc]
  have t: "c + s + i = of_int (sum_list (map Invoice_total_gst_paise sales)) / 100" by simp
  from assms have "summary_total (output_gst r) = round2 (c + s + i)"
    using acc
    by (auto simp: generate_gst_summary_def Let_def sales_def [symmetric] business_def [symmetric]
        split: if_splits)
  then show ?thesis by (simp add: t round2_hundredths sales_def)
qed

lemma gst_summary_input_always_zero:
  "generate_gst_summary db from_date to_date = Inr r \<Longrightarrow>
     summary_total (input_gst r) = 0 \<and> purchase_count r = 0"
  by (auto simp: generate_gst_summary_def Let_def split: prod.splits if_splits)

text \<open>
  Claim C4 against the code. A purchase that \<open>finalize_purchase\<close> has finalized carries
  the status "Finalized", while the report selects purchases whose status is "FINAL":
  the finalized purchase of 10 December with 1800 paise of GST is not counted, and the
  report for December shows an input GST of 0 and no purchase.
\<close>

theorem gst_summary_misses_finalized_purchase:
  "Purchase_status ex_purchase = ''Finalized''
   \<and> ((2025, 12, 1), 0) \<le> Purchase_purchase_date ex_purchase
   \<and> Purchase_purchase_date ex_purchase \<le> ((2025, 12, 31), 0)
   \<and> Purchase_total_gst ex_purchase = 1800
   \<and> (case generate_gst_summary ex_purchase_db (2025, 12, 1) (2025, 12, 31) of
         Inl _ \<Rightarrow> False
       | Inr r \<Rightarrow> summary_total (input_gst r) = 0 \<and> purchase_count r = 0)"
  by code_simp

section \<open>Invoice cancellation\<close>

lemma update_first_by_key:
  assumes "distinct (map key ps)" and "find (\<lambda>p. key p = k) ps = Some x"
  shows "update_first (\<lambda>p. key p = k) (\<lambda>_. g x) ps = map (\<lambda>p. if key p = k then g p else p) ps"
  using assms
proof (induction ps)
  case Nil
  then show ?case by simp
next
  case (Cons a ps)
  show ?case
  proof (cases "key a = k")
    case True
    with Cons.prems have "x = a" and "k \<notin> key ` set ps" by auto
    then have "map (\<lambda>p. if key p = k then g p else p) ps = ps"
      by (intro map_idI) auto
    with True \<open>x = a\<close> show ?thesis by simp
  next
    case False
    with Cons show ?thesis by simp
  qed
qed

lemma find_by_key_None:
  "find (\<lambda>p. key p = k) ps = None \<Longrightarrow> p \<in> set ps \<Longrightarrow> key p \<noteq> k"
  by (auto simp: find_None_iff)

lemma restore_stock_as_map:
  assumes "distinct (map Product_id ps)" and "\<forall>p \<in> set ps. Product_id p \<noteq> 0"
  shows "restore_stock items ps
         = map (\<lambda>p. p\<lparr>Product_stock_quantity :=
                        Product_stock_quantity p + restored_quantity items (Product_id p)\<rparr>) ps"
  using assms
proof (induction items arbitrary: ps)
  case Nil
  then show ?case by (simp add: restored_quantity_def)
next
  case (Cons item rest)
  define q where "q = InvoiceItem_quantity item"
  show ?case
  proof (cases "InvoiceItem_product_id item")
    case None
    then have "restored_quantity (item # rest) k = restored_quantity rest k" for k
      by (simp add: restored_quantity_def)
    with None Cons show ?thesis by simp
  next
    case (Some pid)
    show ?thesis
    proof (cases "pid = 0 \<or> find (\<lambda>p. Product_id p = pid) ps = None")
      case True
      then have no: "p \<in> set ps \<Longrightarrow> Product_id p \<noteq> pid" for p
        using Cons.prems(2) by (auto dest: find_by_key_None)
      have step: "restore_stock (item # rest) ps = restore_stock rest ps"
        using True Some by auto
      have "p \<in> set ps \<Longrightarrow>
              restored_quantity (item # rest) (Product_id p) = restored_quantity rest (Product_id p)" for p
        using no [of p] Some by (auto simp: restored_quantity_def)
      then show ?thesis
        unfolding step Cons.IH [OF Cons.prems] by (intro map_cong) auto
    next
      case False
      then obtain product where f: "find (\<lambda>p. Product_id p = pid) ps = Some product" and nz: "pid \<noteq> 0"
        by auto
      define u :: "Product \<Rightarrow> Product" where "u = (\<lambda>p. if Product_id p = pid
                                  then p\<lparr>Product_stock_quantity := Product_stock_quantity p + q\<rparr> else p)"
      have ps1: "update_first (\<lambda>p. Product_id p = pid)
                   (\<lambda>_. product\<lparr>Product_stock_quantity := Product_stock_quantity product + q\<rparr>) ps
                 = map u ps"
        unfolding u_def
        by (rule update_first_by_key [OF Cons.prems(1) f,
              of "\<lambda>p. p\<lparr>Product_stock_quantity := Product_stock_quantity p + q\<rparr>"])
      have step: "restore_stock (item # rest) ps = restore_stock rest (map u ps)"
        using Some nz f ps1 by (simp add: q_def)
      have idu: "Product_id (u p) = Product_id p" for p by (simp add: u_def)
      have d1: "distinct (map Product_id (map u ps))"
        using Cons.prems(1) by (simp add: o_def idu)
      have n1: "\<forall>p \<in> set (map u ps). Product_id p \<noteq> 0"
        using Cons.prems(2) by (auto simp: idu)
      have r: "restored_quantity (item # rest) k
                 = (if k = pid then q else 0) + restored_quantity rest k" for k
        using Some by (auto simp: restored_quantity_def q_def)
      show ?thesis
        unfolding step Cons.IH [OF d1 n1]
        by (auto simp: idu r u_def)
    qed
  qed
qed


lemma find_map_option:
  "find P (map f xs) = map_option f (find (\<lambda>x. P (f x)) xs)"
  by (induction xs) auto

lemma find_update_first:
  "find P xs = Some x \<Longrightarrow> P y \<Longrightarrow> find P (update_first P (\<lambda>_. y) xs) = Some y"
  by (induction xs) (auto split: if_splits)

lemma length_update_first [simp]: "length (update_first P f xs) = length xs"
  by (induction xs) auto

lemma cancel_invoice_result:
  assumes f: "find (\<lambda>i. Invoice_id i = invoice_id) (invoices (pending db)) = Some invoice"
    and nc: "\<not> Invoice_is_cancelled invoice"
    and d: "distinct (map Product_id (products (pending db)))"
    and nz: "\<forall>p \<in> set (products (pending db)). Product_id p \<noteq> 0"
  shows "cancel_invoice db invoice_id reason env =
           (Inr ((Invoice_cancel env invoice reason)\<lparr>Invoice_status := ''CANCELLED''\<rparr>),
            db_commit (db\<lparr>pending := (pending db)
              \<lparr>products :=
                 map (\<lambda>p. p\<lparr>Product_stock_quantity :=
                        Product_stock_quantity p
                          + restored_quantity (Invoice_items invoice) (Product_id p)\<rparr>)
                   (products (pending db)),
               invoices :=
                 update_first (\<lambda>i. Invoice_id i = invoice_id)
                   (\<lambda>_. (Invoice_cancel env invoice reason)\<lparr>Invoice_status := ''CANCELLED''\<rparr>)
                   (invoices (pending db))\<rparr>\<rparr>))"
  using f nc by (simp add: cancel_invoice_def Let_def restore_stock_as_map [OF d nz])

lemma cancel_invoice_twice:
  assumes f: "find (\<lambda>i. Invoice_id i = invoice_id) (invoices (pending db)) = Some invoice"
    and c: "cancel_invoice db invoice_id reason env = (Inr invoice', db')"
  shows "cancel_invoice db' invoice_id reason2 env2
           = (Inl (HTTPException 400 (Invoice_already_cancelled (Invoice_invoice_number invoice))), db')"
proof -
  have id: "Invoice_id invoice = invoice_id"
    using f by (auto simp: find_Some_iff)
  from c f have nc: "\<not> Invoice_is_cancelled invoice"
    by (auto simp: cancel_invoice_def split: if_splits)
  define cancelled where
    "cancelled = (Invoice_cancel env invoice reason)\<lparr>Invoice_status := ''CANCELLED''\<rparr>"
  have cid: "Invoice_id cancelled = invoice_id" and cc: "Invoice_is_cancelled cancelled"
    and cn: "Invoice_invoice_number cancelled = Invoice_invoice_number invoice"
    by (simp_all add: cancelled_def Invoice_cancel_def id)
  from c f nc have inv': "invoices (pending db')
      = update_first (\<lambda>i. Invoice_id i = invoice_id) (\<lambda>_. cancelled) (invoices (pending db))"
    by (auto simp: cancel_invoice_def Let_def db_commit_def cancelled_def)
  have "find (\<lambda>i. Invoice_id i = invoice_id) (invoices (pending db')) = Some cancelled"
    unfolding inv' by (rule find_update_first [OF f]) (simp add: cid)
  then show ?thesis
    by (simp add: cancel_invoice_def cc cn)
qed

text \<open>
  Claim C8. For an existing invoice that is not cancelled, in a database whose product
  ids are distinct and not 0 (they are keys the database assigns), \<open>cancel_invoice\<close>
  succeeds and commits; every existing product's stock grows by exactly the quantity the
  invoice's items recorded for its id and nothing else about the products changes, so an
  item whose product no longer exists has no effect; the invoice gets the status
  CANCELLED with the timestamp and the reason and keeps its items and number; the invoice
  row is replaced in place, none is deleted. A second \<open>cancel_invoice\<close> on the same id
  is rejected with the 400 error "Invoice ... is already cancelled" and changes nothing.
\<close>

theorem cancel_invoice_restores_stock:
  assumes f: "find (\<lambda>i. Invoice_id i = invoice_id) (invoices (pending db)) = Some invoice"
    and nc: "\<not> Invoice_is_cancelled invoice"
    and d: "distinct (map Product_id (products (pending db)))"
    and nz: "\<forall>p \<in> set (products (pending db)). Product_id p \<noteq> 0"
  shows "case cancel_invoice db invoice_id reason env of
           (Inl e, db') \<Rightarrow> False
         | (Inr invoice', db') \<Rightarrow>
             products (pending db')
               = map (\<lambda>p. p\<lparr>Product_stock_quantity :=
                        Product_stock_quantity p
                          + restored_quantity (Invoice_items invoice) (Product_id p)\<rparr>)
                   (products (pending db))
           \<and> committed db' = pending db'
           \<and> Invoice_status invoice' = ''CANCELLED''
           \<and> Invoice_is_cancelled invoice'
           \<and> Invoice_cancelled_at invoice' = Some (utc_now env)
           \<and> Invoice_cancellation_reason invoice' = Some reason
           \<and> Invoice_items invoice' = Invoice_items invoice
           \<and> Invoice_invoice_number invoice' = Invoice_invoice_number invoice
           \<and> invoices (pending db')
               = update_first (\<lambda>i. Invoice_id i = invoice_id) (\<lambda>_. invoice') (invoices (pending db))
           \<and> length (invoices (pending db')) = length (invoices (pending db))
           \<and> find (\<lambda>i. Invoice_id i = invoice_id) (invoices (pending db')) = Some invoice'
           \<and> cancel_invoice db' invoice_id reason2 env2
               = (Inl (HTTPException 400 (Invoice_already_cancelled (Invoice_invoice_number invoice))),
                  db')"
proof -
  note r = cancel_invoice_result [OF f nc d nz, of reason env]
  have id: "Invoice_id invoice = invoice_id"
    using f by (auto simp: find_Some_iff)
  have fu: "find (\<lambda>i. Invoice_id i = invoice_id)
              (update_first (\<lambda>i. Invoice_id i = invoice_id)
                 (\<lambda>_. (Invoice_cancel env invoice reason)\<lparr>Invoice_status := ''CANCELLED''\<rparr>)
                 (invoices (pending db)))
            = Some ((Invoice_cancel env invoice reason)\<lparr>Invoice_status := ''CANCELLED''\<rparr>)"
    by (rule find_update_first [OF f]) (simp add: Invoice_cancel_def id)
  show ?thesis
    using cancel_invoice_twice [OF f r, of reason2 env2] fu
    by (simp add: r db_commit_def Invoice_cancel_def)
qed

text \<open>
  Claim C10. The lookup of \<open>cancel_invoice\<close> is by id alone: a product that has been
  deactivated (\<open>is_active = False\<close>) gets the quantity the invoice's items recorded for
  it added to its stock, the result is committed, and the product stays inactive.
\<close>

theorem cancel_invoice_restores_inactive_product:
  assumes f: "find (\<lambda>i. Invoice_id i = invoice_id) (invoices (pending db)) = Some invoice"
    and nc: "\<not> Invoice_is_cancelled invoice"
    and d: "distinct (map Product_id (products (pending db)))"
    and nz: "\<forall>p \<in> set (products (pending db)). Product_id p \<noteq> 0"
    and p: "find (\<lambda>p. Product_id p = pid) (products (pending db)) = Some product"
    and inactive: "\<not> Product_is_active product"
  shows "find (\<lambda>p. Product_id p = pid) (products (committed (snd (cancel_invoice db invoice_id reason env))))
         = Some (product\<lparr>Product_stock_quantity :=
                   Product_stock_quantity product + restored_quantity (Invoice_items invoice) pid\<rparr>)
       \<and> \<not> Product_is_active (product\<lparr>Product_stock_quantity :=
                   Product_stock_quantity product + restored_quantity (Invoice_items invoice) pid\<rparr>)"
proof -
  note r = cancel_invoice_result [OF f nc d nz, of reason env]
  have pid: "Product_id product = pid" using p by (auto simp: find_Some_iff)
  have "find (\<lambda>p. Product_id p = pid)
          (map (\<lambda>p. p\<lparr>Product_stock_quantity :=
                        Product_stock_quantity p
                          + restored_quantity (Invoice_items invoice) (Product_id p)\<rparr>)
             (products (pending db)))
        = map_option (\<lambda>p. p\<lparr>Product_stock_quantity :=
                        Product_stock_quantity p
                          + restored_quantity (Invoice_items invoice) (Product_id p)\<rparr>)
            (find (\<lambda>p. Product_id p = pid) (products (pending db)))"
    by (simp add: find_map_option)
  then show ?thesis using inactive by (simp add: r db_commit_def p pid)
qed

lemma ex_sold_db_facts:
  "find (\<lambda>i. Invoice_id i = 1) (invoices (pending (SessionLocal ex_sold_db))) = Some ex_sold_invoice"
  "\<not> Invoice_is_cancelled ex_sold_invoice"
  "distinct (map Product_id (products (pending (SessionLocal ex_sold_db))))"
  "\<forall>p \<in> set (products (pending (SessionLocal ex_sold_db))). Product_id p \<noteq> 0"
  "find (\<lambda>p. Product_id p = 2) (products (pending (SessionLocal ex_sold_db)))
     = Some (ex_ink\<lparr>Product_stock_quantity := 0, Product_is_active := False\<rparr>)"
  by (simp_all add: SessionLocal_def ex_sold_db_def ex_sold_invoice_def ex_pen_def ex_ink_def)

theorem cancel_invoice_restores_stock_witness:
  "case cancel_invoice (SessionLocal ex_sold_db) 1 ''returned'' ex_env of
     (Inl e, db') \<Rightarrow> False
   | (Inr invoice', db') \<Rightarrow>
       map Product_stock_quantity (products (pending db')) = [10, 1]
     \<and> Invoice_status invoice' = ''CANCELLED''
     \<and> length (Invoice_items invoice') = 3
     \<and> cancel_invoice db' 1 ''again'' ex_env
         = (Inl (HTTPException 400 (Invoice_already_cancelled ''INV000001'')), db')"
proof -
  have q: "restored_quantity (Invoice_items ex_sold_invoice) 1 = 2"
          "restored_quantity (Invoice_items ex_sold_invoice) 2 = 1"
    by (simp_all add: restored_quantity_def ex_sold_invoice_def)
  have ps: "products ex_sold_db
             = [ex_pen\<lparr>Product_stock_quantity := 8\<rparr>,
                ex_ink\<lparr>Product_stock_quantity := 0, Product_is_active := False\<rparr>]"
    by (simp add: ex_sold_db_def)
  have n: "Invoice_invoice_number ex_sold_invoice = ''INV000001''"
          "length (Invoice_items ex_sold_invoice) = 3"
    by (simp_all add: ex_sold_invoice_def)
  from cancel_invoice_restores_stock [OF ex_sold_db_facts(1-4),
         where reason = "''returned''" and env = ex_env and ?reason2.0 = "''again''" and ?env2.0 = ex_env]
  show ?thesis
    by (auto split: prod.splits sum.splits simp: ps q n ex_pen_def ex_ink_def)
qed

theorem cancel_invoice_restores_inactive_product_witness:
  "\<not> Product_is_active (ex_ink\<lparr>Product_stock_quantity := 0, Product_is_active := False\<rparr>)
   \<and> find (\<lambda>p. Product_id p = 2)
        (products (committed (snd (cancel_invoice (SessionLocal ex_sold_db) 1 ''returned'' ex_env))))
      = Some (ex_ink\<lparr>Product_stock_quantity := 1, Product_is_active := False\<rparr>)"
proof -
  have i: "\<not> Product_is_active (ex_ink\<lparr>Product_stock_quantity := 0, Product_is_active := False\<rparr>)"
    by simp
  have q: "restored_quantity (Invoice_items ex_sold_invoice) 2 = 1"
    by (simp add: restored_quantity_def ex_sold_invoice_def)
  from cancel_invoice_restores_inactive_product [OF ex_sold_db_facts(1-4) ex_sold_db_facts(5) i,
         where reason = "''returned''" and env = ex_env]
  show ?thesis by (simp add: q)
qed

section \<open>Purchase finalization\<close>

lemma find_None_list_ex: "(find P xs = None) = (\<not> list_ex P xs)"
  by (auto simp: find_None_iff list_ex_iff)

lemma set_missing_hsns: "set (missing_hsns items ps) = unresolved_hsns items ps"
proof (induction items)
  case Nil
  then show ?case by (simp add: unresolved_hsns_def)
next
  case (Cons item rest)
  then show ?case
    by (cases "find (\<lambda>p. Product_hsn_code p = PurchaseItem_hsn_code item \<and> Product_is_active p) ps")
       (auto simp: unresolved_hsns_def find_None_list_ex [symmetric])
qed

lemma update_first_distinct:
  assumes "distinct ps" and "find P ps = Some x"
  shows "update_first P (\<lambda>_. y) ps = map (\<lambda>p. if p = x then y else p) ps"
  using assms
proof (induction ps)
  case Nil
  then show ?case by simp
next
  case (Cons a ps)
  show ?case
  proof (cases "P a")
    case True
    with Cons.prems have "x = a" and "a \<notin> set ps" by auto
    then have "map (\<lambda>p. if p = x then y else p) ps = ps"
      by (intro map_idI) auto
    with True \<open>x = a\<close> show ?thesis by simp
  next
    case False
    with Cons.prems have "find P ps = Some x" by simp
    then have "P x" by (auto simp: find_Some_iff)
    with False have "a \<noteq> x" by auto
    with False Cons show ?thesis by simp
  qed
qed

lemma find_in_set: "find P xs = Some x \<Longrightarrow> x \<in> set xs \<and> P x"
  by (auto simp: find_Some_iff)

lemma add_stock_as_map:
  assumes "distinct (map Product_id ps)"
  shows "add_stock items ps
         = map (\<lambda>p. if receiving_product ps p
                     then p\<lparr>Product_stock_quantity :=
                            Product_stock_quantity p + received_quantity items (Product_hsn_code p)\<rparr>
                     else p) ps"
  using assms
proof (induction items arbitrary: ps)
  case Nil
  then show ?case by (simp add: received_quantity_def map_idI)
next
  case (Cons item rest)
  define h where "h = PurchaseItem_hsn_code item"
  define q where "q = py_int (PurchaseItem_quantity item)"
  define P :: "string \<Rightarrow> Product \<Rightarrow> bool" where
    "P = (\<lambda>k p. Product_hsn_code p = k \<and> Product_is_active p)"
  have rq: "received_quantity (item # rest) k = (if k = h then q else 0) + received_quantity rest k" for k
    by (simp add: received_quantity_def h_def q_def)
  have recv: "receiving_product xs p = (find (P (Product_hsn_code p)) xs = Some p)" for xs p
    by (simp add: receiving_product_def P_def)
  show ?case
  proof (cases "find (P h) ps")
    case None
    have step: "add_stock (item # rest) ps = add_stock rest ps"
      using None by (simp add: P_def h_def)
    have "receiving_product ps p \<Longrightarrow> Product_hsn_code p \<noteq> h" for p
      using None by (auto simp: recv)
    then show ?thesis
      unfolding step Cons.IH [OF Cons.prems] by (intro map_cong) (auto simp: rq)
  next
    case (Some x)
    define x' where "x' = x\<lparr>Product_stock_quantity := Product_stock_quantity x + q\<rparr>"
    define u :: "Product \<Rightarrow> Product" where "u = (\<lambda>p. if p = x then x' else p)"
    from Cons.prems have dps: "distinct ps" and inj: "inj_on Product_id (set ps)"
      by (simp_all add: distinct_map)
    have ps1: "update_first (P h) (\<lambda>_. x') ps = map u ps"
      unfolding u_def by (rule update_first_distinct [OF dps Some])
    have step: "add_stock (item # rest) ps = add_stock rest (map u ps)"
      using Some ps1 by (simp add: P_def h_def x'_def q_def)
    have keep: "Product_id (u p) = Product_id p" "Product_hsn_code (u p) = Product_hsn_code p"
               "Product_is_active (u p) = Product_is_active p" for p
      by (simp_all add: u_def x'_def)
    have d1: "distinct (map Product_id (map u ps))"
      using Cons.prems by (simp add: o_def keep)
    have xin: "x \<in> set ps" and xh: "Product_hsn_code x = h"
      using find_in_set [OF Some] by (simp_all add: P_def)
    have fu: "find (P k) (map u ps) = map_option u (find (P k) ps)" for k
    proof -
      have "find (P k) (map u ps) = map_option u (find (\<lambda>p. P k (u p)) ps)"
        by (induction ps) auto
      also have "(\<lambda>p. P k (u p)) = P k" by (auto simp: P_def keep)
      finally show ?thesis .
    qed
    have uinj: "p \<in> set ps \<Longrightarrow> y \<in> set ps \<Longrightarrow> u y = u p \<Longrightarrow> y = p" for p y
    proof -
      assume a: "p \<in> set ps" "y \<in> set ps" "u y = u p"
      then have "Product_id (u y) = Product_id (u p)" by simp
      then have "Product_id y = Product_id p" by (simp add: keep)
      with inj a show "y = p" by (auto dest: inj_onD)
    qed
    have recv1: "p \<in> set ps \<Longrightarrow> receiving_product (map u ps) (u p) = receiving_product ps p" for p
    proof -
      assume a: "p \<in> set ps"
      show ?thesis
      proof (cases "find (P (Product_hsn_code p)) ps")
        case None
        then show ?thesis by (simp add: recv fu keep)
      next
        case (Some y)
        then have "y \<in> set ps" by (auto dest: find_in_set)
        with a uinj [of p y] Some show ?thesis by (auto simp: recv fu keep)
      qed
    qed
    have xrecv: "receiving_product ps x"
      using Some by (simp add: recv xh)
    have other: "p \<noteq> x \<Longrightarrow> receiving_product ps p \<Longrightarrow> Product_hsn_code p \<noteq> h" for p
      using Some by (auto simp: recv)
    have "map (\<lambda>p1. if receiving_product (map u ps) p1
                     then p1\<lparr>Product_stock_quantity :=
                            Product_stock_quantity p1 + received_quantity rest (Product_hsn_code p1)\<rparr>
                     else p1) (map u ps)
          = map (\<lambda>p. if receiving_product ps p
                     then p\<lparr>Product_stock_quantity :=
                            Product_stock_quantity p + received_quantity (item # rest) (Product_hsn_code p)\<rparr>
                     else p) ps"
      unfolding map_map
    proof (intro map_cong refl)
      fix p assume a: "p \<in> set ps"
      show "(((\<lambda>p1. if receiving_product (map u ps) p1
                     then p1\<lparr>Product_stock_quantity :=
                            Product_stock_quantity p1 + received_quantity rest (Product_hsn_code p1)\<rparr>
                     else p1) \<circ> u) p)
            = (if receiving_product ps p
                     then p\<lparr>Product_stock_quantity :=
                            Product_stock_quantity p + received_quantity (item # rest) (Product_hsn_code p)\<rparr>
                     else p)"
      proof (cases "p = x")
        case True
        then show ?thesis
          using xrecv recv1 [OF xin] by (simp add: keep rq xh) (simp add: u_def x'_def xh)
      next
        case False
        then have up: "u p = p" by (simp add: u_def)
        show ?thesis
          using recv1 [OF a] other [OF False] by (simp add: up rq)
      qed
    qed
    then show ?thesis
      unfolding step Cons.IH [OF d1] .
  qed
qed


text \<open>
  Claim C9. For an existing purchase, in a database whose product ids are distinct:
  \<open>finalize_purchase\<close> is rejected with a 400 error and no change if the purchase is
  already Finalized or Cancelled. Otherwise, if some line's HSN code has no active product,
  it fails with the 400 error listing all such HSN codes, each once and in order, and
  changes nothing, so no stock is incremented. If every line resolves, it commits: each
  product that is the first active one with its HSN code gets the truncated quantities of
  the lines with that code added to its stock, the other products are unchanged, and the
  purchase becomes Finalized with the timestamp.
\<close>

theorem finalize_purchase_behaviour:
  assumes f: "find (\<lambda>p. Purchase_id p = purchase_id) (purchase_invoices (pending db)) = Some purchase"
    and d: "distinct (map Product_id (products (pending db)))"
  shows "(Purchase_status purchase = ''Finalized'' \<longrightarrow>
            finalize_purchase db purchase_id env
              = (Inl (HTTPException 400 Purchase_already_finalized), db))
       \<and> (Purchase_status purchase = ''Cancelled'' \<longrightarrow>
            finalize_purchase db purchase_id env
              = (Inl (HTTPException 400 Cannot_finalize_cancelled), db))
       \<and> (Purchase_status purchase \<noteq> ''Finalized'' \<and> Purchase_status purchase \<noteq> ''Cancelled'' \<longrightarrow>
            finalize_purchase db purchase_id env
              = (if unresolved_hsns (Purchase_items purchase) (products (pending db)) \<noteq> {}
                 then (Inl (HTTPException 400
                         (Missing_products_for_HSN
                            (sorted_list_of_set
                               (unresolved_hsns (Purchase_items purchase) (products (pending db)))))),
                       db)
                 else (Inr (purchase\<lparr>Purchase_status := ''Finalized'',
                                      Purchase_finalized_at := Some (utc_now env)\<rparr>),
                       db_commit (db\<lparr>pending := (pending db)
                         \<lparr>products :=
                            map (\<lambda>p. if receiving_product (products (pending db)) p
                                      then p\<lparr>Product_stock_quantity :=
                                             Product_stock_quantity p
                                               + received_quantity (Purchase_items purchase)
                                                   (Product_hsn_code p)\<rparr>
                                      else p)
                              (products (pending db)),
                          purchase_invoices :=
                            update_first (\<lambda>p. Purchase_id p = purchase_id)
                              (\<lambda>_. purchase\<lparr>Purchase_status := ''Finalized'',
                                              Purchase_finalized_at := Some (utc_now env)\<rparr>)
                              (purchase_invoices (pending db))\<rparr>\<rparr>))))"
proof -
  have m: "(missing_hsns (Purchase_items purchase) (products (pending db)) = [])
             = (unresolved_hsns (Purchase_items purchase) (products (pending db)) = {})"
    using set_missing_hsns [of "Purchase_items purchase" "products (pending db)"]
    by (metis set_empty)
  have l: "sort (remdups (missing_hsns (Purchase_items purchase) (products (pending db))))
             = sorted_list_of_set (unresolved_hsns (Purchase_items purchase) (products (pending db)))"
    by (simp add: set_missing_hsns [symmetric] sorted_list_of_set_sort_remdups)
  show ?thesis
    using f by (simp add: finalize_purchase_def Let_def m l add_stock_as_map [OF d])
qed

lemma ex_stock_db_facts:
  "find (\<lambda>p. Purchase_id p = 2) (purchase_invoices (pending (SessionLocal ex_stock_db)))
     = Some ex_draft_purchase"
  "find (\<lambda>p. Purchase_id p = 3) (purchase_invoices (pending (SessionLocal ex_stock_db)))
     = Some ex_unmatched_purchase"
  "find (\<lambda>p. Purchase_id p = 1) (purchase_invoices (pending (SessionLocal ex_stock_db)))
     = Some ex_purchase"
  "distinct (map Product_id (products (pending (SessionLocal ex_stock_db))))"
  by (simp_all add: ex_stock_db_def ex_draft_purchase_def ex_unmatched_purchase_def
        ex_purchase_def ex_pen_def ex_ink_def)

theorem finalize_purchase_behaviour_witness:
  "fst (finalize_purchase (SessionLocal ex_stock_db) 1 ex_env)
     = Inl (HTTPException 400 Purchase_already_finalized)
   \<and> finalize_purchase (SessionLocal ex_stock_db) 3 ex_env
     = (Inl (HTTPException 400 (Missing_products_for_HSN [''8888'', ''9999''])),
        SessionLocal ex_stock_db)
   \<and> Purchase_status (projr (fst (finalize_purchase (SessionLocal ex_stock_db) 2 ex_env)))
     = ''Finalized''
   \<and> map Product_stock_quantity
        (products (committed (snd (finalize_purchase (SessionLocal ex_stock_db) 2 ex_env))))
     = [12, 1]"
proof -
  have s1: "Purchase_status ex_purchase = ''Finalized''"
    by (simp add: ex_purchase_def)
  have s2: "Purchase_status ex_draft_purchase \<noteq> ''Finalized''"
           "Purchase_status ex_draft_purchase \<noteq> ''Cancelled''"
           "Purchase_status ex_unmatched_purchase \<noteq> ''Finalized''"
           "Purchase_status ex_unmatched_purchase \<noteq> ''Cancelled''"
    by (simp_all add: ex_draft_purchase_def ex_unmatched_purchase_def)
  have u3: "unresolved_hsns (Purchase_items ex_unmatched_purchase) (products ex_stock_db)
              = {''8888'', ''9999''}"
    by (auto simp: unresolved_hsns_def ex_unmatched_purchase_def ex_stock_db_def ex_pen_def ex_ink_def)
  have l3: "sorted_list_of_set {''8888'', ''9999''} = [''8888'', ''9999'']"
    by code_simp
  have u2: "unresolved_hsns (Purchase_items ex_draft_purchase) (products ex_stock_db) = {}"
    by (simp add: unresolved_hsns_def ex_draft_purchase_def ex_stock_db_def ex_pen_def ex_ink_def)
  have r2: "map Product_stock_quantity
              (map (\<lambda>p. if receiving_product (products ex_stock_db) p
                         then p\<lparr>Product_stock_quantity :=
                                Product_stock_quantity p
                                  + received_quantity (Purchase_items ex_draft_purchase)
                                      (Product_hsn_code p)\<rparr>
                         else p)
                 (products ex_stock_db)) = [12, 1]"
    by code_simp
  show ?thesis
    using finalize_purchase_behaviour [OF ex_stock_db_facts(3) ex_stock_db_facts(4), of ex_env]
      finalize_purchase_behaviour [OF ex_stock_db_facts(2) ex_stock_db_facts(4), of ex_env]
      finalize_purchase_behaviour [OF ex_stock_db_facts(1) ex_stock_db_facts(4), of ex_env]
    by (simp add: s1 s2 u3 l3 u2 r2 db_commit_def del: map_map)
qed


end
